theory Spec2Isabelle
  imports Complex_Main "HOL-Library.Multiset"
begin

section \<open>Python strings\<close>

text \<open>
  A Python \<open>str\<close> is a sequence of Unicode code points; \<open>len\<close>, \<open>strip\<close>,
  \<open>split\<close> and the regular expressions of the program all work on code points. A string
  is therefore a list of code points, and \<open>U\<close> turns an ASCII literal into one.
\<close>

type_synonym ustr = "nat list"

definition U :: "string \<Rightarrow> ustr" where
  "U s = map of_char s"

text \<open>
  What the interpreter decides and the repository does not: the order in which a \<open>set\<close> is
  iterated (\<open>set_iter\<close>, applied to the distinct items in the order of their insertion), and
  the tables of the Unicode database for the code points from 128 up (\<open>uni_alnum\<close>:
  \<open>str.isalnum\<close>; \<open>uni_decimal\<close>: the value of a decimal digit; \<open>uni_lower\<close>:
  \<open>str.lower\<close> of a string that is not ASCII).
\<close>

record runtime =
  set_iter :: "ustr list \<Rightarrow> ustr list"
  uni_alnum :: "nat \<Rightarrow> bool"
  uni_decimal :: "nat \<Rightarrow> nat option"
  uni_lower :: "ustr \<Rightarrow> ustr"

text \<open>Iterating a set yields each of its elements once, in some order.\<close>

definition iteration_order :: "runtime \<Rightarrow> bool" where
  "iteration_order rt \<longleftrightarrow> (\<forall>xs. mset (set_iter rt xs) = mset xs)"

text \<open>\<open>str.isspace\<close> on one code point: the complete list of CPython.\<close>

definition py_isspace :: "nat \<Rightarrow> bool" where
  "py_isspace c \<longleftrightarrow>
     (9 \<le> c \<and> c \<le> 13) \<or> (28 \<le> c \<and> c \<le> 32) \<or> c = 133 \<or> c = 160 \<or> c = 5760 \<or>
     (8192 \<le> c \<and> c \<le> 8202) \<or> c = 8232 \<or> c = 8233 \<or> c = 8239 \<or> c = 8287 \<or> c = 12288"

definition py_lstrip :: "ustr \<Rightarrow> ustr" where
  "py_lstrip s = dropWhile py_isspace s"

fun py_rstrip :: "ustr \<Rightarrow> ustr" where
  "py_rstrip [] = []"
| "py_rstrip (c # cs) =
     (let r = py_rstrip cs in if r = [] \<and> py_isspace c then [] else c # r)"

text \<open>\<open>s.strip()\<close>\<close>

definition py_strip :: "ustr \<Rightarrow> ustr" where
  "py_strip s = py_rstrip (py_lstrip s)"

text \<open>\<open>s.lstrip(chars)\<close>: drops the leading code points that occur in \<open>chars\<close>.\<close>

definition py_lstrip_chars :: "ustr \<Rightarrow> ustr \<Rightarrow> ustr" where
  "py_lstrip_chars chars s = dropWhile (\<lambda>c. c \<in> set chars) s"

text \<open>\<open>s.startswith(p)\<close>\<close>

fun startswith :: "ustr \<Rightarrow> ustr \<Rightarrow> bool" where
  "startswith s [] = True"
| "startswith [] (p # ps) = False"
| "startswith (c # cs) (p # ps) = (c = p \<and> startswith cs ps)"

text \<open>
  \<open>s.split(sep)\<close> for a non-empty separator: the pieces between the occurrences of
  \<open>sep\<close>, found from left to right without overlap.
\<close>

function split_from :: "ustr \<Rightarrow> ustr \<Rightarrow> ustr list" where
  "split_from sep [] = [[]]"
| "split_from sep (c # cs) =
     (if sep \<noteq> [] \<and> startswith (c # cs) sep
      then [] # split_from sep (drop (length sep) (c # cs))
      else (case split_from sep cs of
              [] \<Rightarrow> [[c]]
            | piece # pieces \<Rightarrow> (c # piece) # pieces))"
  by pat_completeness auto
termination
  by (relation "measure (\<lambda>(sep, s). length s)") auto

definition py_split :: "ustr \<Rightarrow> ustr \<Rightarrow> ustr list" where
  "py_split s sep = split_from sep s"

text \<open>\<open>s.replace(old, '')\<close> for a non-empty \<open>old\<close>: every occurrence is removed.\<close>

function py_remove :: "ustr \<Rightarrow> ustr \<Rightarrow> ustr" where
  "py_remove old [] = []"
| "py_remove old (c # cs) =
     (if old \<noteq> [] \<and> startswith (c # cs) old
      then py_remove old (drop (length old) (c # cs))
      else c # py_remove old cs)"
  by pat_completeness auto
termination
  by (relation "measure (\<lambda>(old, s). length s)") auto

text \<open>\<open>sub in s\<close>\<close>

fun contains :: "ustr \<Rightarrow> ustr \<Rightarrow> bool" where
  "contains [] sub = (sub = [])"
| "contains (c # cs) sub = (startswith (c # cs) sub \<or> contains cs sub)"

text \<open>\<open>sep.join(xs)\<close>\<close>

fun py_join :: "ustr \<Rightarrow> ustr list \<Rightarrow> ustr" where
  "py_join sep [] = []"
| "py_join sep [x] = x"
| "py_join sep (x # y # ys) = x @ sep @ py_join sep (y # ys)"

text \<open>\<open>s.lower()\<close>\<close>

definition py_lower :: "runtime \<Rightarrow> ustr \<Rightarrow> ustr" where
  "py_lower rt s =
     (if list_all (\<lambda>c. c < 128) s then map (\<lambda>c. if 65 \<le> c \<and> c \<le> 90 then c + 32 else c) s
      else uni_lower rt s)"

text \<open>
  \<open>list(set(xs))\<close>: inserting an element that is already in the set leaves the set as it
  is, so the set holds the items of \<open>xs\<close> in the order of their first occurrence, and the
  interpreter iterates them in an order of its own.
\<close>

definition first_seen :: "ustr list \<Rightarrow> ustr list" where
  "first_seen xs = rev (remdups (rev xs))"

definition list_of_set :: "runtime \<Rightarrow> ustr list \<Rightarrow> ustr list" where
  "list_of_set rt xs = set_iter rt (first_seen xs)"


section \<open>Regular expressions of Python's \<open>re\<close>\<close>

text \<open>
  The patterns of the program use literals, character sets, \<open>\d\<close>, \<open>\s\<close>, \<open>\b\<close>,
  non-capturing groups, alternation and the greedy quantifiers. The characters of a pattern
  are ASCII; the text is any string.
\<close>

datatype citem = Chr char | Range char char | Digit | Space

datatype re =
    Lit string
  | Set "citem list"
  | NotSet "citem list"
  | WordB
  | Cat "re list"
  | Alt "re list"
  | Rep nat "nat option" re

text \<open>The quantifiers \<open>*\<close>, \<open>+\<close> and \<open>?\<close>.\<close>

definition Star :: "re \<Rightarrow> re" where
  "Star r = Rep 0 None r"

definition Plus :: "re \<Rightarrow> re" where
  "Plus r = Rep 1 None r"

definition Opt :: "re \<Rightarrow> re" where
  "Opt r = Rep 0 (Some 1) r"

text \<open>
  \<open>\d\<close> and \<open>\w\<close> on a string pattern follow the Unicode database: a decimal digit, and
  an alphanumeric code point or the underscore.
\<close>

definition is_decimal :: "runtime \<Rightarrow> nat \<Rightarrow> bool" where
  "is_decimal rt c = (if c < 128 then 48 \<le> c \<and> c \<le> 57 else uni_decimal rt c \<noteq> None)"

definition is_word :: "runtime \<Rightarrow> nat \<Rightarrow> bool" where
  "is_word rt c =
     (if c < 128
      then (48 \<le> c \<and> c \<le> 57) \<or> (65 \<le> c \<and> c \<le> 90) \<or> c = 95 \<or> (97 \<le> c \<and> c \<le> 122)
      else uni_alnum rt c)"

text \<open>
  Under \<open>re.IGNORECASE\<close> a code point is compared through its lower case. The code
  points whose lower case is an ASCII letter, or that \<open>re\<close> treats as the same letter, are
  the upper-case ASCII letters, U+0130 and U+0131 (for \<open>i\<close>), U+017F (for \<open>s\<close>) and
  U+212A (for \<open>k\<close>).
\<close>

definition ascii_fold :: "nat \<Rightarrow> nat" where
  "ascii_fold c =
     (if 65 \<le> c \<and> c \<le> 90 then c + 32
      else if c = 304 \<or> c = 305 then 105
      else if c = 383 then 115
      else if c = 8490 then 107
      else c)"

definition in_range :: "bool \<Rightarrow> nat \<Rightarrow> nat \<Rightarrow> nat \<Rightarrow> bool" where
  "in_range ic lo hi c \<longleftrightarrow>
     (lo \<le> c \<and> c \<le> hi) \<or>
     (ic \<and> (let f = ascii_fold c in
        (lo \<le> f \<and> f \<le> hi) \<or> (97 \<le> f \<and> f \<le> 122 \<and> lo \<le> f - 32 \<and> f - 32 \<le> hi)))"

fun item_match :: "runtime \<Rightarrow> bool \<Rightarrow> citem \<Rightarrow> nat \<Rightarrow> bool" where
  "item_match rt ic (Chr p) c =
     (if ic then ascii_fold c = ascii_fold (of_char p) else c = of_char p)"
| "item_match rt ic (Range lo hi) c = in_range ic (of_char lo) (of_char hi) c"
| "item_match rt ic Digit c = is_decimal rt c"
| "item_match rt ic Space c = py_isspace c"

text \<open>
  A position in the text: the text before it, reversed, and the text after it. \<open>\b\<close>
  holds where exactly one of the two neighbours is a word character.
\<close>

type_synonym pos = "ustr \<times> ustr"

definition word_boundary :: "runtime \<Rightarrow> pos \<Rightarrow> bool" where
  "word_boundary rt p =
     ((case fst p of [] \<Rightarrow> False | b # _ \<Rightarrow> is_word rt b) \<noteq>
      (case snd p of [] \<Rightarrow> False | a # _ \<Rightarrow> is_word rt a))"

fun lit_match :: "runtime \<Rightarrow> bool \<Rightarrow> string \<Rightarrow> pos \<Rightarrow> pos list" where
  "lit_match rt ic [] p = [p]"
| "lit_match rt ic (x # xs) (seen, []) = []"
| "lit_match rt ic (x # xs) (seen, c # cs) =
     (if item_match rt ic (Chr x) c then lit_match rt ic xs (c # seen, cs) else [])"

fun set_match :: "(nat \<Rightarrow> bool) \<Rightarrow> pos \<Rightarrow> pos list" where
  "set_match ok (seen, []) = []"
| "set_match ok (seen, c # cs) = (if ok c then [(c # seen, cs)] else [])"

text \<open>
  The greedy quantifier \<open>{m,n}\<close> (\<open>n = None\<close>: no upper bound). \<open>step\<close> gives the
  positions where one more iteration can end, and the result lists the positions where the
  repetition can end, the longest first, as backtracking tries them. An iteration consumes
  at least one code point (every quantified group of the program does), so the length of
  the text that is left bounds the number of iterations.
\<close>

fun rep_match :: "(pos \<Rightarrow> pos list) \<Rightarrow> nat \<Rightarrow> nat option \<Rightarrow> nat \<Rightarrow> pos \<Rightarrow> pos list" where
  "rep_match step m n 0 p = (if m = 0 then [p] else [])"
| "rep_match step m n (Suc k) p =
     (if n = Some 0 then [p]
      else concat (map (rep_match step (m - 1) (map_option (\<lambda>j. j - 1) n) k)
                    (filter (\<lambda>q. snd q \<noteq> snd p) (step p)))
           @ (if m = 0 then [p] else []))"

text \<open>
  \<open>rmatch rt ic r p\<close>: the positions where a match of \<open>r\<close> that starts at \<open>p\<close> can
  end, in the order in which the backtracking matcher of \<open>re\<close> finds them (\<open>ic\<close>:
  \<open>re.IGNORECASE\<close>). The first one is the match that \<open>re\<close> reports.
\<close>

fun rmatch :: "runtime \<Rightarrow> bool \<Rightarrow> re \<Rightarrow> pos \<Rightarrow> pos list" where
  "rmatch rt ic (Lit s) p = lit_match rt ic s p"
| "rmatch rt ic (Set items) p = set_match (\<lambda>c. \<exists>i \<in> set items. item_match rt ic i c) p"
| "rmatch rt ic (NotSet items) p = set_match (\<lambda>c. \<not> (\<exists>i \<in> set items. item_match rt ic i c)) p"
| "rmatch rt ic WordB p = (if word_boundary rt p then [p] else [])"
| "rmatch rt ic (Cat rs) p = fold (\<lambda>r ps. concat (map (\<lambda>q. rmatch rt ic r q) ps)) rs [p]"
| "rmatch rt ic (Alt rs) p = concat (map (\<lambda>r. rmatch rt ic r p) rs)"
| "rmatch rt ic (Rep m n r) p = rep_match (\<lambda>q. rmatch rt ic r q) m n (length (snd p)) p"

text \<open>
  \<open>re.findall\<close> for a pattern without capturing groups: the matches from left to right,
  each search starting where the last match ended. \<open>skip\<close> counts the code points of the
  last match that are still to be passed. (No pattern of the program matches the empty
  string.)
\<close>

fun findall_from :: "runtime \<Rightarrow> bool \<Rightarrow> re \<Rightarrow> nat \<Rightarrow> ustr \<Rightarrow> ustr \<Rightarrow> ustr list" where
  "findall_from rt ic r skip seen [] =
     (if skip = 0 \<and> rmatch rt ic r (seen, []) \<noteq> [] then [[]] else [])"
| "findall_from rt ic r (Suc k) seen (c # cs) = findall_from rt ic r k (c # seen) cs"
| "findall_from rt ic r 0 seen (c # cs) =
     (case rmatch rt ic r (seen, c # cs) of
        [] \<Rightarrow> findall_from rt ic r 0 (c # seen) cs
      | q # _ \<Rightarrow>
          (let n = length (c # cs) - length (snd q)
           in take n (c # cs) # findall_from rt ic r (n - 1) (c # seen) cs))"

definition findall :: "runtime \<Rightarrow> bool \<Rightarrow> re \<Rightarrow> ustr \<Rightarrow> ustr list" where
  "findall rt ic r text = findall_from rt ic r 0 [] text"

text \<open>\<open>re.search\<close>: the leftmost match, if there is one.\<close>

fun search_from :: "runtime \<Rightarrow> bool \<Rightarrow> re \<Rightarrow> ustr \<Rightarrow> ustr \<Rightarrow> ustr option" where
  "search_from rt ic r seen rest =
     (case rmatch rt ic r (seen, rest) of
        q # _ \<Rightarrow> Some (take (length rest - length (snd q)) rest)
      | [] \<Rightarrow> (case rest of [] \<Rightarrow> None | c # cs \<Rightarrow> search_from rt ic r (c # seen) cs))"

definition search :: "runtime \<Rightarrow> bool \<Rightarrow> re \<Rightarrow> ustr \<Rightarrow> ustr option" where
  "search rt ic r text = search_from rt ic r [] text"

section \<open>The rule-based extractors (\<open>backend/api/routers/entities.py\<close>)\<close>

text \<open>The sets \<open>[A-Z]\<close>, \<open>[a-z]\<close>, \<open>\s\<close>, \<open>\d\<close> and \<open>[\d,]\<close> of the patterns.\<close>

definition AZ :: re where
  "AZ = Set [Range CHR ''A'' CHR ''Z'']"

definition az :: re where
  "az = Set [Range CHR ''a'' CHR ''z'']"

definition sp :: re where
  "sp = Set [Space]"

definition dg :: re where
  "dg = Set [Digit]"

definition amount :: re where
  "amount = Cat [Plus (Set [Digit, Chr CHR '','']), Opt (Cat [Lit ''.'', Rep 2 (Some 2) dg])]"

definition month_name :: re where
  "month_name = Alt [Lit ''January'', Lit ''February'', Lit ''March'', Lit ''April'',
     Lit ''May'', Lit ''June'', Lit ''July'', Lit ''August'', Lit ''September'',
     Lit ''October'', Lit ''November'', Lit ''December'']"

definition party_patterns :: "re list" where
  "party_patterns =
    [Cat [WordB, AZ, Plus az, Lit '' '', AZ, Plus az, Star (Cat [Plus sp, AZ, Plus az]), WordB],
     Cat [WordB, AZ, Plus (Set [Range CHR ''A'' CHR ''Z'', Space, Chr CHR ''&'']),
          Alt [Lit ''LLC'', Lit ''Inc'', Lit ''Corp'', Lit ''Company'', Lit ''Ltd'', Lit ''LP'',
               Lit ''LLP''],
          WordB],
     Cat [Alt [Lit ''Company'', Lit ''Corporation'', Lit ''LLC'', Lit ''Inc'', Lit ''Ltd'',
               Lit ''LP'', Lit ''LLP''],
          Star (Cat [Plus sp, AZ, Plus az])],
     Cat [Alt [Lit ''Party'', Lit ''Parties'', Lit ''Client'', Lit ''Contractor'',
               Lit ''Employee'', Lit ''Employer'', Lit ''Lessor'', Lit ''Lessee''],
          Star (Cat [Plus sp, AZ, Plus az])]]"

definition extract_parties :: "runtime \<Rightarrow> ustr \<Rightarrow> ustr list" where
  "extract_parties rt text =
     (let parties = concat (map (\<lambda>pattern. findall rt True pattern text) party_patterns)
      in take 5 (list_of_set rt (map py_strip (filter (\<lambda>p. length (py_strip p) > 3) parties))))"

definition date_patterns :: "re list" where
  "date_patterns =
    [Cat [WordB, Rep 1 (Some 2) dg, Set [Chr CHR ''/'', Chr CHR ''-''], Rep 1 (Some 2) dg,
          Set [Chr CHR ''/'', Chr CHR ''-''], Rep 2 (Some 4) dg, WordB],
     Cat [WordB, Rep 4 (Some 4) dg, Set [Chr CHR ''/'', Chr CHR ''-''], Rep 1 (Some 2) dg,
          Set [Chr CHR ''/'', Chr CHR ''-''], Rep 1 (Some 2) dg, WordB],
     Cat [WordB, month_name, Plus sp, Rep 1 (Some 2) dg, Opt (Lit '',''), Plus sp,
          Rep 4 (Some 4) dg, WordB],
     Cat [WordB, Rep 1 (Some 2) dg, Plus sp, month_name, Plus sp, Rep 4 (Some 4) dg, WordB],
     Cat [WordB, Alt [Lit ''within'', Lit ''after'', Lit ''before'', Lit ''during''], Plus sp,
          Plus dg, Plus sp, Alt [Lit ''days'', Lit ''months'', Lit ''years''], WordB]]"

definition extract_dates :: "runtime \<Rightarrow> ustr \<Rightarrow> ustr list" where
  "extract_dates rt text =
     (let dates = concat (map (\<lambda>pattern. findall rt True pattern text) date_patterns)
      in take 5 (list_of_set rt dates))"

definition monetary_patterns :: "re list" where
  "monetary_patterns =
    [Cat [Lit ''$'', amount],
     Cat [WordB, Plus dg, Star (Cat [Lit '','', Rep 3 (Some 3) dg]),
          Opt (Cat [Lit ''.'', Rep 2 (Some 2) dg]), Star sp, Lit ''dollar'', Opt (Lit ''s''),
          WordB],
     Cat [WordB, Alt [Lit ''USD'', Lit ''EUR'', Lit ''GBP''], Star sp, amount, WordB],
     Cat [WordB,
          Alt [Lit ''salary'', Lit ''wage'', Lit ''fee'', Lit ''payment'', Lit ''compensation'',
               Lit ''amount''],
          Star sp, Opt (Lit '':''), Star sp, Opt (Lit ''$''), amount, WordB],
     Cat [WordB, Alt [Lit ''per'', Lit ''each'', Lit ''every''], Plus sp,
          Alt [Lit ''hour'', Lit ''month'', Lit ''year'', Lit ''week''],
          Star sp, Opt (Lit '':''), Star sp, Opt (Lit ''$''), amount, WordB]]"

definition extract_monetary_values :: "runtime \<Rightarrow> ustr \<Rightarrow> ustr list" where
  "extract_monetary_values rt text =
     (let amounts = concat (map (\<lambda>pattern. findall rt True pattern text) monetary_patterns)
      in take 5 (list_of_set rt amounts))"

text \<open>
  The obligation patterns are compiled with \<open>re.IGNORECASE | re.DOTALL\<close>. \<open>DOTALL\<close>
  changes what an unescaped dot matches, and these patterns have a dot only inside a set.
\<close>

definition sentence_rest :: "re list" where
  "sentence_rest = [Plus sp, Plus (NotSet [Chr CHR ''.'']), Set [Chr CHR ''.'']]"

definition obligation_patterns :: "re list" where
  "obligation_patterns =
    [Cat (Alt [Lit ''shall'', Lit ''must'', Lit ''will'',
               Cat [Lit ''agree'', Opt (Lit ''s''), Lit '' to''], Lit ''required to'',
               Lit ''responsible for'']
          # sentence_rest),
     Cat (Alt [Lit ''obligation'', Lit ''duty'', Lit ''responsibility'', Lit ''requirement'']
          # sentence_rest),
     Cat (Alt [Lit ''Party'', Lit ''Employee'', Lit ''Contractor'', Lit ''Company'']
          # Plus sp
          # Alt [Lit ''shall'', Lit ''must'', Lit ''will'', Cat [Lit ''agree'', Opt (Lit ''s'')]]
          # sentence_rest)]"

definition extract_obligations :: "runtime \<Rightarrow> ustr \<Rightarrow> ustr list" where
  "extract_obligations rt text =
     (let obligations =
            concat (map (\<lambda>pattern. map py_strip (findall rt True pattern text))
                      obligation_patterns);
          cleaned_obligations =
            filter (\<lambda>obs. length obs > 20 \<and> length obs < 200) obligations
      in take 5 cleaned_obligations)"

definition legal_terms :: "string list" where
  "legal_terms =
    [''confidentiality'', ''non-disclosure'', ''liability'', ''indemnification'', ''breach'',
     ''termination'', ''jurisdiction'', ''governing law'', ''force majeure'', ''arbitration'',
     ''intellectual property'', ''copyright'', ''trademark'', ''patent'', ''trade secret'',
     ''warranty'', ''guarantee'', ''representation'', ''covenant'', ''consideration'']"

text \<open>
  \<open>term.title()\<close> for a term of the vocabulary (ASCII): a letter that follows a letter is
  lower case, any other letter is upper case. \<open>cased\<close> tells whether the code point before
  is a letter.
\<close>

fun title_from :: "bool \<Rightarrow> ustr \<Rightarrow> ustr" where
  "title_from cased [] = []"
| "title_from cased (c # cs) =
     (if 65 \<le> c \<and> c \<le> 90 then (if cased then c + 32 else c) # title_from True cs
      else if 97 \<le> c \<and> c \<le> 122 then (if cased then c else c - 32) # title_from True cs
      else c # title_from False cs)"

definition py_title :: "ustr \<Rightarrow> ustr" where
  "py_title s = title_from False s"

text \<open>\<open>re.escape(term)\<close> is the pattern of the literal \<open>term\<close>.\<close>

definition term_found :: "runtime \<Rightarrow> ustr \<Rightarrow> string \<Rightarrow> bool" where
  "term_found rt text term \<longleftrightarrow> search rt True (Cat [WordB, Lit term, WordB]) text \<noteq> None"

definition extract_legal_terms :: "runtime \<Rightarrow> ustr \<Rightarrow> ustr list" where
  "extract_legal_terms rt text =
     (let found_terms = map (\<lambda>term. py_title (U term)) (filter (term_found rt text) legal_terms)
      in take 8 found_terms)"

section \<open>Entity sets\<close>

text \<open>A dict from category names to lists of strings; \<open>d.get(k, [])\<close> reads it.\<close>

type_synonym entities = "ustr \<rightharpoonup> ustr list"

definition dict_get :: "entities \<Rightarrow> ustr \<Rightarrow> ustr list" where
  "dict_get d k = (case d k of None \<Rightarrow> [] | Some v \<Rightarrow> v)"

definition categories :: "ustr list" where
  "categories = [U ''parties'', U ''dates'', U ''monetary_values'', U ''obligations'',
     U ''legal_terms'']"

text \<open>\<open>item and item.strip()\<close>\<close>

definition truthy_item :: "ustr \<Rightarrow> bool" where
  "truthy_item item \<longleftrightarrow> item \<noteq> [] \<and> py_strip item \<noteq> []"

definition merged_items :: "runtime \<Rightarrow> entities \<Rightarrow> entities \<Rightarrow> ustr \<Rightarrow> ustr list" where
  "merged_items rt ai_entities rule_entities category =
     (let ai_items = dict_get ai_entities category;
          rule_items = dict_get rule_entities category;
          combined = list_of_set rt (ai_items @ rule_items);
          combined = filter truthy_item combined
      in take 10 combined)"

definition merge_entity_results :: "runtime \<Rightarrow> entities \<Rightarrow> entities \<Rightarrow> entities" where
  "merge_entity_results rt ai_entities rule_entities =
     foldl (\<lambda>merged category.
              merged(category \<mapsto> merged_items rt ai_entities rule_entities category))
       Map.empty categories"


definition extract_entities_rule_based :: "runtime \<Rightarrow> ustr \<Rightarrow> entities" where
  "extract_entities_rule_based rt text =
     [U ''parties'' \<mapsto> extract_parties rt text,
      U ''dates'' \<mapsto> extract_dates rt text,
      U ''monetary_values'' \<mapsto> extract_monetary_values rt text,
      U ''obligations'' \<mapsto> extract_obligations rt text,
      U ''legal_terms'' \<mapsto> extract_legal_terms rt text]"

section \<open>The model service (\<open>backend/services/granite_llm.py\<close>)\<close>

text \<open>
  An exception that a Python call raises: its class and its message (\<open>str(e)\<close>).
\<close>

datatype exn = Raised string ustr

definition exn_str :: "exn \<Rightarrow> ustr" where
  "exn_str e = (case e of Raised cls msg \<Rightarrow> msg)"

definition key_error :: "ustr \<Rightarrow> exn" where
  "key_error k = Raised ''KeyError'' k"

definition attribute_error :: exn where
  "attribute_error = Raised ''AttributeError'' (U ''eos_token_id'')"

definition index_error :: exn where
  "index_error = Raised ''IndexError'' (U ''list index out of range'')"

text \<open>
  The handles that loading acquires. Of the tokenizer the program reads
  \<open>eos_token_id\<close>; the model and the pipeline are opaque.
\<close>

datatype tokenizer = Tokenizer (eos_token_id: "int option")

datatype model_handle = Model

datatype pipeline_handle = Pipeline

text \<open>The keyword arguments of one call of the text-generation pipeline.\<close>

record request =
  prompt_text :: ustr
  max_new_tokens :: int
  temperature :: rat
  do_sample :: bool
  top_p :: rat
  repetition_penalty :: rat
  pad_token_id :: "int option"
  num_return_sequences :: int

text \<open>
  One run of \<open>_initialize_model\<close> acquires the tokenizer, the model and the pipeline in
  this order, and each of the three calls can raise.
\<close>

datatype acquisition =
    TokenizerFails
  | ModelFails tokenizer
  | PipelineFails tokenizer
  | Acquired tokenizer

text \<open>
  The world outside the program: how the \<open>k\<close>-th attempt to load the model ends, and
  what the \<open>k\<close>-th call of the pipeline does with its request (it raises, or returns the
  \<open>generated_text\<close> of each sequence it generated).
\<close>

record env =
  acquire :: "nat \<Rightarrow> acquisition"
  run_pipeline :: "nat \<Rightarrow> request \<Rightarrow> exn + ustr list"

text \<open>
  The fields of \<open>GraniteLLMService\<close> that the program reads and writes, and the history
  of its calls to the outside: the number of runs of \<open>_initialize_model\<close> and the requests
  issued to the pipeline.
\<close>

record service =
  model_loaded :: bool
  tokenizer :: "tokenizer option"
  model :: "model_handle option"
  pipeline :: "pipeline_handle option"
  load_attempts :: nat
  issued :: "request list"

text \<open>\<open>__init__\<close>\<close>

definition new_service :: service where
  "new_service = \<lparr>model_loaded = False, tokenizer = None, model = None, pipeline = None,
     load_attempts = 0, issued = []\<rparr>"

text \<open>
  \<open>_initialize_model\<close>: an exception of any of the three calls is caught; the fields
  assigned before it keep their new values and \<open>model_loaded\<close> is set to \<open>False\<close>.
\<close>

definition initialize_model :: "env \<Rightarrow> service \<Rightarrow> service" where
  "initialize_model env s =
     (let s = s\<lparr>load_attempts := load_attempts s + 1\<rparr>
      in case acquire env (load_attempts s - 1) of
           TokenizerFails \<Rightarrow> s\<lparr>model_loaded := False\<rparr>
         | ModelFails tok \<Rightarrow> s\<lparr>tokenizer := Some tok, model_loaded := False\<rparr>
         | PipelineFails tok \<Rightarrow>
             s\<lparr>tokenizer := Some tok, model := Some Model, model_loaded := False\<rparr>
         | Acquired tok \<Rightarrow>
             s\<lparr>tokenizer := Some tok, model := Some Model, pipeline := Some Pipeline,
               model_loaded := True\<rparr>)"

definition ensure_model_loaded :: "env \<Rightarrow> service \<Rightarrow> service" where
  "ensure_model_loaded env s = (if \<not> model_loaded s then initialize_model env s else s)"

definition msg_not_available :: ustr where
  "msg_not_available =
     U ''Model not available. Please check system requirements and try again.''"

definition msg_too_short :: ustr where
  "msg_too_short = U (''I understand your question. Due to current processing constraints, ''
     @ ''please try a more specific question or check back shortly.'')"

definition msg_generation_error :: ustr where
  "msg_generation_error = U (''I'm experiencing some technical difficulties with text ''
     @ ''generation. Please try again with a simpler question.'')"

definition msg_apology :: ustr where
  "msg_apology =
     U ''I apologize, but I'm experiencing technical difficulties. Please try again later.''"

definition newline :: nat where
  "newline = 10"

definition assistant_marker :: ustr where
  "assistant_marker = U ''<|assistant|>'' @ [newline]"

definition format_prompt :: "ustr \<Rightarrow> ustr" where
  "format_prompt prompt = U ''<|user|>'' @ [newline] @ prompt @ [newline] @ assistant_marker"

definition generation_request :: "tokenizer \<Rightarrow> ustr \<Rightarrow> int \<Rightarrow> request" where
  "generation_request tok formatted_prompt max_length =
     \<lparr>prompt_text = formatted_prompt,
      max_new_tokens = min max_length 100,
      temperature = 3 / 10,
      do_sample = True,
      top_p = 8 / 10,
      repetition_penalty = 105 / 100,
      pad_token_id = eos_token_id tok,
      num_return_sequences = 1\<rparr>"

text \<open>
  The body of the inner \<open>try\<close> of \<open>generate_response\<close>: the arguments are evaluated
  (\<open>self.tokenizer.eos_token_id\<close> raises when there is no tokenizer), the pipeline is
  called, and the text after the last marker is taken from the first output.
\<close>

definition generation_attempt :: "env \<Rightarrow> service \<Rightarrow> ustr \<Rightarrow> int \<Rightarrow> (exn + ustr) \<times> service" where
  "generation_attempt env s formatted_prompt max_length =
     (case tokenizer s of
        None \<Rightarrow> (Inl attribute_error, s)
      | Some tok \<Rightarrow>
          (let req = generation_request tok formatted_prompt max_length;
               s' = s\<lparr>issued := issued s @ [req]\<rparr>
           in case run_pipeline env (length (issued s)) req of
                Inl e \<Rightarrow> (Inl e, s')
              | Inr [] \<Rightarrow> (Inl index_error, s')
              | Inr (full_response # _) \<Rightarrow>
                  (let response = py_strip (last (py_split full_response assistant_marker))
                   in if response = [] \<or> length response < 10
                      then (Inr msg_too_short, s')
                      else (Inr response, s'))))"

text \<open>The body of the outer \<open>try\<close>, with the handler of the inner one.\<close>

definition generate_body :: "env \<Rightarrow> service \<Rightarrow> ustr \<Rightarrow> int \<Rightarrow> rat \<Rightarrow> (exn + ustr) \<times> service" where
  "generate_body env s prompt max_length temperature_arg =
     (let s = ensure_model_loaded env s
      in if \<not> model_loaded s \<or> pipeline s = None then (Inr msg_not_available, s)
         else (let formatted_prompt = format_prompt prompt
               in case generation_attempt env s formatted_prompt max_length of
                    (Inl gen_error, s') \<Rightarrow> (Inr msg_generation_error, s')
                  | (Inr response, s') \<Rightarrow> (Inr response, s')))"

definition generate_response :: "env \<Rightarrow> service \<Rightarrow> ustr \<Rightarrow> int \<Rightarrow> rat \<Rightarrow> (exn + ustr) \<times> service" where
  "generate_response env s prompt max_length temperature_arg =
     (case generate_body env s prompt max_length temperature_arg of
        (Inl e, s') \<Rightarrow> (Inr msg_apology, s')
      | (Inr response, s') \<Rightarrow> (Inr response, s'))"

subsection \<open>Clause simplification\<close>

definition simplify_prompt :: "ustr \<Rightarrow> ustr" where
  "simplify_prompt clause_text = py_join [newline]
     [U (''Please simplify the following legal clause into plain, everyday language that a ''
         @ ''non-lawyer can easily understand. Keep the essential meaning but make it clear ''
         @ ''and simple:''),
      [],
      U ''Legal Clause: '' @ clause_text,
      [],
      U ''Simplified Version:'']"

definition simplify_clause :: "env \<Rightarrow> service \<Rightarrow> ustr \<Rightarrow> ustr \<times> service" where
  "simplify_clause env s clause_text =
     (let s = ensure_model_loaded env s
      in if \<not> model_loaded s
         then (U ''Simplified: '' @ take 200 clause_text @ U ''... (AI model not available)'', s)
         else (case generate_response env s (simplify_prompt clause_text) 300 (7 / 10) of
                 (Inl e, s') \<Rightarrow> (U ''Error simplifying clause: '' @ exn_str e, s')
               | (Inr response, s') \<Rightarrow> (response, s')))"

subsection \<open>Entity extraction with the model\<close>

definition empty_entities :: entities where
  "empty_entities = [U ''parties'' \<mapsto> [], U ''dates'' \<mapsto> [], U ''monetary_values'' \<mapsto> [],
     U ''obligations'' \<mapsto> [], U ''legal_terms'' \<mapsto> []]"

definition entity_prompt :: "ustr \<Rightarrow> ustr" where
  "entity_prompt text = py_join [newline]
     [U (''Analyze the following legal document and extract key information. Return the ''
         @ ''results in this exact format:''),
      [],
      U ''PARTIES: [list the individuals, companies, or organizations involved]'',
      U ''DATES: [list all dates mentioned]'',
      U ''MONETARY VALUES: [list all money amounts, fees, or financial terms]'',
      U ''OBLIGATIONS: [list key duties, responsibilities, or requirements]'',
      U ''LEGAL TERMS: [list important legal concepts or technical terms]'',
      [],
      U ''Document: '' @ take 2000 text @ U ''...'',
      [],
      U ''Analysis:'']"

text \<open>The bullet U+2022.\<close>

definition bullet :: nat where
  "bullet = 8226"

text \<open>\<open>[item.strip() for item in items.split(',') if item.strip()]\<close>\<close>

definition inline_items :: "ustr \<Rightarrow> ustr list" where
  "inline_items items =
     map py_strip (filter (\<lambda>item. py_strip item \<noteq> []) (py_split items (U '','')))"

text \<open>\<open>entities[k].extend(xs)\<close>; looking up a key that the dict lacks raises.\<close>

definition dict_extend :: "entities \<Rightarrow> ustr option \<Rightarrow> ustr list \<Rightarrow> exn + entities" where
  "dict_extend d k xs =
     (case k of
        None \<Rightarrow> Inl (key_error (U ''None''))
      | Some key \<Rightarrow>
          (case d key of None \<Rightarrow> Inl (key_error key) | Some v \<Rightarrow> Inr (d(key \<mapsto> v @ xs))))"

text \<open>
  A line that starts with a section header: the cursor moves to the category of the header,
  and what follows the header on the line is split at the commas, unless it is empty or the
  placeholder of the prompt.
\<close>

definition header_line ::
  "entities \<Rightarrow> ustr \<Rightarrow> string \<Rightarrow> string \<Rightarrow> string \<Rightarrow> exn + entities \<times> ustr option" where
  "header_line entities line header category placeholder =
     (let current_category = Some (U category);
          items = py_strip (py_remove (U header) line)
      in if items \<noteq> [] \<and> items \<noteq> U placeholder
         then (case dict_extend entities current_category (inline_items items) of
                 Inl e \<Rightarrow> Inl e
               | Inr entities' \<Rightarrow> Inr (entities', current_category))
         else Inr (entities, current_category))"

text \<open>
  One turn of the loop over the lines of the reply. The condition of the last branch is
  \<open>current_category and line.startswith('-') or line.startswith(bullet)\<close>, and \<open>and\<close>
  binds tighter than \<open>or\<close>.
\<close>

definition parse_entity_line ::
  "entities \<times> ustr option \<Rightarrow> ustr \<Rightarrow> exn + entities \<times> ustr option" where
  "parse_entity_line st raw =
     (let entities = fst st; current_category = snd st; line = py_strip raw
      in if startswith line (U ''PARTIES:'')
         then header_line entities line ''PARTIES:'' ''parties''
                ''[list the individuals, companies, or organizations involved]''
         else if startswith line (U ''DATES:'')
         then header_line entities line ''DATES:'' ''dates'' ''[list all dates mentioned]''
         else if startswith line (U ''MONETARY VALUES:'')
         then header_line entities line ''MONETARY VALUES:'' ''monetary_values''
                ''[list all money amounts, fees, or financial terms]''
         else if startswith line (U ''OBLIGATIONS:'')
         then header_line entities line ''OBLIGATIONS:'' ''obligations''
                ''[list key duties, responsibilities, or requirements]''
         else if startswith line (U ''LEGAL TERMS:'')
         then header_line entities line ''LEGAL TERMS:'' ''legal_terms''
                ''[list important legal concepts or technical terms]''
         else if (current_category \<noteq> None \<and> startswith line (U ''-'')) \<or>
                 startswith line [bullet]
         then (let item = py_strip (py_lstrip_chars (U ''-'' @ [bullet]) line)
               in if item \<noteq> []
                  then (case dict_extend entities current_category [item] of
                          Inl e \<Rightarrow> Inl e
                        | Inr entities' \<Rightarrow> Inr (entities', current_category))
                  else Inr (entities, current_category))
         else Inr (entities, current_category))"

text \<open>
  The loop runs inside a \<open>try\<close>: an exception ends it, and the entities collected up to
  there are what the function returns.
\<close>

fun parse_entity_lines :: "ustr list \<Rightarrow> entities \<times> ustr option \<Rightarrow> entities" where
  "parse_entity_lines [] st = fst st"
| "parse_entity_lines (raw # lines) st =
     (case parse_entity_line st raw of
        Inl e \<Rightarrow> fst st
      | Inr st' \<Rightarrow> parse_entity_lines lines st')"

definition parse_entities :: "ustr \<Rightarrow> entities" where
  "parse_entities response =
     parse_entity_lines (py_split response [newline]) (empty_entities, None)"

definition extract_entities_with_ai :: "env \<Rightarrow> service \<Rightarrow> ustr \<Rightarrow> entities \<times> service" where
  "extract_entities_with_ai env s text =
     (let s = ensure_model_loaded env s
      in if \<not> model_loaded s then (empty_entities, s)
         else (case generate_response env s (entity_prompt text) 400 (7 / 10) of
                 (Inl e, s') \<Rightarrow> (empty_entities, s')
               | (Inr response, s') \<Rightarrow> (parse_entities response, s')))"

subsection \<open>Document classification\<close>

text \<open>
  The result dict has the keys \<open>type\<close>, \<open>confidence\<close>, \<open>description\<close> and
  \<open>key_characteristics\<close>. A Python float is modelled by the rational number it stands
  for; the rounding of binary floating point is not modelled.
\<close>

record classification =
  doc_type :: ustr
  confidence :: rat
  description :: ustr
  key_characteristics :: "ustr list"

definition classify_prompt :: "ustr \<Rightarrow> ustr" where
  "classify_prompt text = py_join [newline]
     [U (''Analyze the following legal document and classify its type. Choose from these ''
         @ ''categories:''),
      U ''- Non-Disclosure Agreement (NDA)'',
      U ''- Employment Contract'',
      U ''- Service Agreement'',
      U ''- Lease Agreement'',
      U ''- Purchase Agreement'',
      U ''- Partnership Agreement'',
      U ''- License Agreement'',
      U ''- General Legal Document'',
      [],
      U ''Also provide confidence level (0.0 to 1.0) and key characteristics.'',
      [],
      U ''Document excerpt: '' @ take 1500 text @ U ''...'',
      [],
      U ''Classification:'',
      U ''Type:'',
      U ''Confidence:'',
      U ''Description:'',
      U ''Key Characteristics:'']"

text \<open>The pattern \<open>(\d+\.?\d*)\<close>; its one group is the whole match.\<close>

definition number_pattern :: re where
  "number_pattern = Cat [Plus dg, Opt (Lit ''.''), Star dg]"

text \<open>\<open>float(s)\<close> for a match of the pattern: digits, with or without a point.\<close>

definition digit_value :: "runtime \<Rightarrow> nat \<Rightarrow> nat" where
  "digit_value rt c =
     (if c < 128 then c - 48 else (case uni_decimal rt c of None \<Rightarrow> 0 | Some v \<Rightarrow> v))"

definition digits_value :: "runtime \<Rightarrow> ustr \<Rightarrow> nat" where
  "digits_value rt ds = foldl (\<lambda>acc c. 10 * acc + digit_value rt c) 0 ds"

definition py_float :: "runtime \<Rightarrow> ustr \<Rightarrow> rat" where
  "py_float rt s =
     (let whole = takeWhile (\<lambda>c. c \<noteq> 46) s;
          frac = drop 1 (dropWhile (\<lambda>c. c \<noteq> 46) s)
      in of_nat (digits_value rt whole) + of_nat (digits_value rt frac) / 10 ^ length frac)"

text \<open>
  The body of the \<open>try\<close> of the \<open>Confidence:\<close> branch: the new value of
  \<open>result["confidence"]\<close>, given the text after the header and the value so far.
\<close>

definition parse_confidence :: "runtime \<Rightarrow> ustr \<Rightarrow> rat \<Rightarrow> rat" where
  "parse_confidence rt conf_str old =
     (case search rt False number_pattern conf_str of
        None \<Rightarrow> old
      | Some conf_match \<Rightarrow>
          (let conf_val = py_float rt conf_match
           in if conf_val > 1 then conf_val / 100 else conf_val))"

definition parse_classification_line :: "runtime \<Rightarrow> classification \<Rightarrow> ustr \<Rightarrow> classification" where
  "parse_classification_line rt result raw =
     (let line = py_strip raw
      in if startswith line (U ''Type:'')
         then (let doc_type = py_strip (py_remove (U ''Type:'') line)
               in if doc_type \<noteq> [] then result\<lparr>doc_type := doc_type\<rparr> else result)
         else if startswith line (U ''Confidence:'')
         then (let conf_str = py_strip (py_remove (U ''Confidence:'') line)
               in result\<lparr>confidence := parse_confidence rt conf_str (confidence result)\<rparr>)
         else if startswith line (U ''Description:'')
         then (let desc = py_strip (py_remove (U ''Description:'') line)
               in if desc \<noteq> [] then result\<lparr>description := desc\<rparr> else result)
         else if startswith line (U ''Key Characteristics:'')
         then result
         else if startswith line (U ''-'') \<or> startswith line [bullet]
         then (let char = py_strip (py_lstrip_chars (U ''-'' @ [bullet]) line)
               in if char \<noteq> []
                  then result\<lparr>key_characteristics := key_characteristics result @ [char]\<rparr>
                  else result)
         else result)"

definition default_classification :: classification where
  "default_classification = \<lparr>doc_type = U ''General Legal Document'', confidence = 5 / 10,
     description = U ''Legal document analysis'', key_characteristics = []\<rparr>"

definition parse_classification :: "runtime \<Rightarrow> ustr \<Rightarrow> classification" where
  "parse_classification rt response =
     foldl (parse_classification_line rt) default_classification (py_split response [newline])"

definition unavailable_classification :: classification where
  "unavailable_classification = \<lparr>doc_type = U ''General Legal Document'', confidence = 3 / 10,
     description = U ''AI model not available for detailed classification'',
     key_characteristics = [U ''Document contains legal terminology'']\<rparr>"

definition failed_classification :: "exn \<Rightarrow> classification" where
  "failed_classification e = \<lparr>doc_type = U ''General Legal Document'', confidence = 3 / 10,
     description = U ''Classification error: '' @ exn_str e,
     key_characteristics = [U ''Document analysis failed'']\<rparr>"

definition classify_document_with_ai ::
  "runtime \<Rightarrow> env \<Rightarrow> service \<Rightarrow> ustr \<Rightarrow> classification \<times> service" where
  "classify_document_with_ai rt env s text =
     (let s = ensure_model_loaded env s
      in if \<not> model_loaded s then (unavailable_classification, s)
         else (case generate_response env s (classify_prompt text) 300 (7 / 10) of
                 (Inl e, s') \<Rightarrow> (failed_classification e, s')
               | (Inr response, s') \<Rightarrow> (parse_classification rt response, s')))"

subsection \<open>Question answering\<close>

definition try_simple_answer :: "runtime \<Rightarrow> ustr \<Rightarrow> ustr \<Rightarrow> ustr" where
  "try_simple_answer rt question context =
     (let question_lower = py_lower rt question
      in if contains question_lower (U ''what is'') \<or> contains question_lower (U ''define'')
         then (if contains question_lower (U ''nda'') \<or>
                  contains question_lower (U ''non-disclosure'')
               then U (''An NDA (Non-Disclosure Agreement) is a legal contract that prevents ''
                       @ ''parties from sharing confidential information with third parties.'')
               else if contains question_lower (U ''contract'')
               then U (''A contract is a legally binding agreement between two or more ''
                       @ ''parties that creates mutual obligations enforceable by law.'')
               else if contains question_lower (U ''clause'')
               then U (''A clause is a specific provision or section within a legal document ''
                       @ ''that addresses a particular aspect of the agreement.'')
               else [])
         else if contains question_lower (U ''how to'')
         then (if contains question_lower (U ''simplify'')
               then U (''To simplify legal language: 1) Replace complex terms with everyday ''
                       @ ''words, 2) Break long sentences into shorter ones, 3) Use active ''
                       @ ''voice, 4) Define technical terms.'')
               else [])
         else if contains question_lower (U ''summarize'')
         then (if context \<noteq> []
               then (let sentences = take 3 (py_split context (U ''.''))
                     in U ''Summary: '' @ py_join (U ''. '') sentences
                        @ U (''... (This is a basic summary. Upload a document for detailed ''
                             @ ''AI analysis.)''))
               else U (''Please upload a document first, then I can provide a detailed ''
                       @ ''summary using AI analysis.''))
         else [])"

definition fallback_answer :: "runtime \<Rightarrow> ustr \<Rightarrow> ustr \<Rightarrow> ustr" where
  "fallback_answer rt question context =
     (let question_lower = py_lower rt question
      in if contains question_lower (U ''summarize'') \<or> contains question_lower (U ''summary'')
         then U (''I can help summarize documents, but the AI model is currently loading. ''
                 @ ''Please try again in a few moments, or upload a document for rule-based ''
                 @ ''analysis.'')
         else if contains question_lower (U ''parties'') \<or> contains question_lower (U ''who'')
         then U (''To identify parties in a legal document, look for names of individuals, ''
                 @ ''companies, or organizations mentioned in the beginning sections or ''
                 @ ''signature areas.'')
         else if contains question_lower (U ''obligation'') \<or>
                 contains question_lower (U ''responsibility'')
         then U (''Legal obligations are typically found in sections containing words like ''
                 @ '''shall', 'must', 'agrees to', or 'responsible for'.'')
         else if contains question_lower (U ''date'') \<or> contains question_lower (U ''when'')
         then U (''Important dates in legal documents include effective dates, expiration ''
                 @ ''dates, and deadlines. Look for date formats like MM/DD/YYYY or ''
                 @ ''spelled-out dates.'')
         else U (''I'm still loading the AI model for detailed analysis. For immediate help, ''
                 @ ''try uploading a document to use our rule-based analysis features.''))"

definition answer_prompt :: "ustr \<Rightarrow> ustr \<Rightarrow> ustr" where
  "answer_prompt question context = py_join [newline]
     [U (''You are ClauseWise AI, a legal document analysis assistant. Answer the following ''
         @ ''question about legal concepts or document analysis.''),
      [],
      U ''Context: ''
        @ (if context \<noteq> [] then take 1000 context else U ''General legal knowledge''),
      [],
      U ''Question: '' @ question,
      [],
      U ''Answer:'']"

definition answer_question :: "runtime \<Rightarrow> env \<Rightarrow> service \<Rightarrow> ustr \<Rightarrow> ustr \<Rightarrow> ustr \<times> service" where
  "answer_question rt env s question context =
     (let simple_answers = try_simple_answer rt question context
      in if simple_answers \<noteq> [] then (simple_answers, s)
         else (let s = ensure_model_loaded env s
               in if \<not> model_loaded s then (fallback_answer rt question context, s)
                  else (case generate_response env s (answer_prompt question context) 200
                               (7 / 10) of
                          (Inl e, s') \<Rightarrow> (fallback_answer rt question context, s')
                        | (Inr response, s') \<Rightarrow> (response, s'))))"

section \<open>Inputs of the examples\<close>

text \<open>
  A runtime whose sets are iterated in insertion order. Its tables for the code points from
  128 up are empty; the examples are ASCII text, where they are not consulted.
\<close>

definition insertion_runtime :: runtime where
  "insertion_runtime = \<lparr>set_iter = (\<lambda>xs. xs), uni_alnum = (\<lambda>c. False),
     uni_decimal = (\<lambda>c. None), uni_lower = (\<lambda>s. s)\<rparr>"

definition untrimmed_dict :: entities where
  "untrimmed_dict = [U ''parties'' \<mapsto> [U ''Acme'', U '' Acme'']]"

definition blank_dict :: entities where
  "blank_dict = [U ''parties'' \<mapsto> [U '' '']]"

definition alice_dict :: entities where
  "alice_dict = [U ''parties'' \<mapsto> [U ''Alice'', U ''Bob'', U ''Alice'']]"

text \<open>Worlds for the examples, and a question to ask.\<close>

definition failing_env :: env where
  "failing_env = \<lparr>acquire = (\<lambda>k. TokenizerFails),
     run_pipeline = (\<lambda>k req. Inl (Raised ''RuntimeError'' (U ''no model'')))\<rparr>"


definition terse_env :: env where
  "terse_env = \<lparr>acquire = (\<lambda>k. Acquired (Tokenizer (Some 0))),
     run_pipeline = (\<lambda>k req. Inr [prompt_text req @ U ''Yes.''])\<rparr>"

definition flaky_env :: env where
  "flaky_env = \<lparr>acquire = (\<lambda>k. if k = 0 then TokenizerFails else Acquired (Tokenizer (Some 0))),
     run_pipeline = (\<lambda>k req. Inr [prompt_text req @ U ''A lease binds both sides.''])\<rparr>"

definition sample_question :: ustr where
  "sample_question = U ''Is it binding?''"

definition after_failed_load :: service where
  "after_failed_load = snd (generate_response flaky_env new_service sample_question 512 (7 / 10))"

text \<open>
  Two replies of the model that differ in the bullet of their first line, a world whose
  model gives the first one, and a document.
\<close>

definition bullet_first_reply :: ustr where
  "bullet_first_reply = [bullet] @ U '' Acme Corp'' @ [newline] @ U ''PARTIES: Alice, Bob''"

definition dash_first_reply :: ustr where
  "dash_first_reply = U ''- Acme Corp'' @ [newline] @ U ''PARTIES: Alice, Bob''"

definition bullet_env :: env where
  "bullet_env = \<lparr>acquire = (\<lambda>k. Acquired (Tokenizer (Some 0))),
     run_pipeline = (\<lambda>k req. Inr [assistant_marker @ bullet_first_reply])\<rparr>"

definition sample_document :: ustr where
  "sample_document = U ''Alice leases the flat to Bob.''"

definition early_bullet_reply :: ustr where
  "early_bullet_reply = U ''- early point'' @ [newline] @ U ''Type: Lease Agreement''
     @ [newline] @ U ''Key Characteristics:''"


definition repeated_text :: ustr where
  "repeated_text = U (''The tenant shall pay the rent on time. ''
     @ ''The tenant shall pay the rent on time.'')"

definition crowded_reply :: ustr where
  "crowded_reply = U ''PARTIES: Ann, Ann, Bob, Cy, Di, Ed, Flo''"

section \<open>Reconciliation: properties of \<open>merge_entity_results\<close>\<close>

lemma foldl_map_upd:
  "foldl (\<lambda>m k. m(k \<mapsto> f k)) m0 ks = (\<lambda>c. if c \<in> set ks then Some (f c) else m0 c)"
  by (induction ks arbitrary: m0) (auto simp: fun_eq_iff)

lemma merge_lookup:
  "merge_entity_results rt a b c =
     (if c \<in> set categories then Some (merged_items rt a b c) else None)"
  by (simp add: merge_entity_results_def foldl_map_upd)

lemma first_seen_set [simp]: "set (first_seen xs) = set xs"
  by (simp add: first_seen_def)

lemma first_seen_distinct [simp]: "distinct (first_seen xs)"
  by (simp add: first_seen_def)

lemma first_seen_twice: "first_seen (xs @ xs) = first_seen xs"
  by (simp add: first_seen_def remdups_append)

lemma list_of_set_set: "iteration_order rt \<Longrightarrow> set (list_of_set rt xs) = set xs"
  unfolding iteration_order_def list_of_set_def
  by (metis first_seen_set mset_eq_setD)

lemma list_of_set_distinct: "iteration_order rt \<Longrightarrow> distinct (list_of_set rt xs)"
  unfolding iteration_order_def list_of_set_def
  by (metis first_seen_distinct mset_eq_imp_distinct_iff)

lemma insertion_runtime_order: "iteration_order insertion_runtime"
  by (simp add: iteration_order_def insertion_runtime_def)

lemma parties_category: "U ''parties'' \<in> set categories"
  by (simp add: categories_def)

lemma merged_items_subset:
  assumes "iteration_order rt"
  shows "set (merged_items rt a b c) \<subseteq> set (dict_get a c) \<union> set (dict_get b c)"
proof -
  have "set (merged_items rt a b c) \<subseteq> set (list_of_set rt (dict_get a c @ dict_get b c))"
    unfolding merged_items_def Let_def
    by (meson filter_is_subset set_take_subset subset_trans)
  then show ?thesis
    using list_of_set_set [OF assms] by simp
qed

lemma merged_items_distinct:
  "iteration_order rt \<Longrightarrow> distinct (merged_items rt a b c)"
  by (simp add: merged_items_def Let_def list_of_set_distinct)

lemma merged_items_truthy:
  "item \<in> set (merged_items rt a b c) \<Longrightarrow> truthy_item item"
  unfolding merged_items_def Let_def
  by (auto dest: in_set_takeD)

lemma merged_items_length: "length (merged_items rt a b c) \<le> 10"
  by (simp add: merged_items_def Let_def)

lemma distinct_map_fixed:
  assumes "distinct xs" and "\<And>x. x \<in> set xs \<Longrightarrow> f x = x"
  shows "distinct (map f xs)"
proof -
  have "map f xs = xs"
    using assms(2) by (induction xs) auto
  with assms(1) show ?thesis by simp
qed

text \<open>
  C2, as the code has it. The merged dict has exactly the five category keys. For each of
  them the merged list holds only items of the two inputs, holds no item twice, holds no
  empty or whitespace-only item and has at most 10 items. Items are compared as they are:
  \<open>merge_entity_results\<close> trims nothing, so matching after trimming is the same thing only
  when the items of both inputs are already trimmed.
\<close>

theorem merge_entity_results_sound:
  assumes "iteration_order rt"
  shows "dom (merge_entity_results rt A B) = set categories \<and>
    (\<forall>category \<in> set categories. \<exists>items.
       merge_entity_results rt A B category = Some items \<and>
       set items \<subseteq> set (dict_get A category) \<union> set (dict_get B category) \<and>
       distinct items \<and>
       (\<forall>item \<in> set items. item \<noteq> [] \<and> py_strip item \<noteq> []) \<and>
       length items \<le> 10 \<and>
       ((\<forall>item \<in> set (dict_get A category) \<union> set (dict_get B category).
           py_strip item = item) \<longrightarrow> distinct (map py_strip items)))"
proof (intro conjI ballI)
  show "dom (merge_entity_results rt A B) = set categories"
    by (auto simp: merge_lookup dom_def)
next
  fix category assume c: "category \<in> set categories"
  let ?items = "merged_items rt A B category"
  have sub: "set ?items \<subseteq> set (dict_get A category) \<union> set (dict_get B category)"
    by (rule merged_items_subset [OF assms])
  have dist: "distinct ?items"
    by (rule merged_items_distinct [OF assms])
  have trimmed: "distinct (map py_strip ?items)"
    if "\<forall>item \<in> set (dict_get A category) \<union> set (dict_get B category). py_strip item = item"
    using dist that sub by (intro distinct_map_fixed) auto
  have "merge_entity_results rt A B category = Some ?items"
    using c by (simp add: merge_lookup)
  moreover have "\<forall>item \<in> set ?items. item \<noteq> [] \<and> py_strip item \<noteq> []"
    using merged_items_truthy [of _ rt A B category] by (auto simp: truthy_item_def)
  ultimately show "\<exists>items.
       merge_entity_results rt A B category = Some items \<and>
       set items \<subseteq> set (dict_get A category) \<union> set (dict_get B category) \<and>
       distinct items \<and>
       (\<forall>item \<in> set items. item \<noteq> [] \<and> py_strip item \<noteq> []) \<and>
       length items \<le> 10 \<and>
       ((\<forall>item \<in> set (dict_get A category) \<union> set (dict_get B category).
           py_strip item = item) \<longrightarrow> distinct (map py_strip items))"
    using sub dist trimmed merged_items_length [of rt A B category] by blast
qed

theorem merge_entity_results_sound_witness:
  "iteration_order insertion_runtime \<and> U ''parties'' \<in> set categories \<and>
   py_strip (U ''Alice'') = U ''Alice'' \<and> py_strip (U ''Bob'') = U ''Bob'' \<and>
   merge_entity_results insertion_runtime alice_dict Map.empty (U ''parties'')
     = Some [U ''Alice'', U ''Bob''] \<and>
   distinct (map py_strip [U ''Alice'', U ''Bob''])"
proof -
  have eq: "merge_entity_results insertion_runtime alice_dict Map.empty (U ''parties'')
     = Some [U ''Alice'', U ''Bob'']"
    by (simp add: merge_lookup categories_def merged_items_def list_of_set_def
        insertion_runtime_def first_seen_def alice_dict_def dict_get_def truthy_item_def
        py_strip_def py_lstrip_def py_isspace_def U_def)
  have a: "py_strip (U ''Alice'') = U ''Alice''" and b: "py_strip (U ''Bob'') = U ''Bob''"
    by (simp_all add: py_strip_def py_lstrip_def py_isspace_def U_def)
  have tr: "\<forall>item \<in> set (dict_get alice_dict (U ''parties'')) \<union>
      set (dict_get Map.empty (U ''parties'')). py_strip item = item"
    using a b by (simp add: alice_dict_def dict_get_def)
  from merge_entity_results_sound [OF insertion_runtime_order, of alice_dict Map.empty]
       parties_category eq tr
  have "distinct (map py_strip [U ''Alice'', U ''Bob''])"
    by (metis option.inject)
  with insertion_runtime_order parties_category eq a b show ?thesis by blast
qed

text \<open>
  C2 as stated fails: two items that differ only in surrounding whitespace are both kept,
  although they are the same string after trimming.
\<close>

theorem merge_keeps_untrimmed_duplicates:
  "merge_entity_results insertion_runtime untrimmed_dict Map.empty (U ''parties'')
     = Some [U ''Acme'', U '' Acme''] \<and>
   \<not> distinct (map py_strip [U ''Acme'', U '' Acme''])"
  by (simp add: merge_lookup categories_def merged_items_def list_of_set_def
      insertion_runtime_def first_seen_def untrimmed_dict_def dict_get_def truthy_item_def
      py_strip_def py_lstrip_def py_isspace_def U_def)

text \<open>
  C9, as the code has it: merging a dict with itself gives, for each of the five
  categories, the deduplicated list of the category without its empty and whitespace-only
  items, cut to 10 items.
\<close>

theorem merge_self:
  assumes "category \<in> set categories"
  shows "merge_entity_results rt A A category =
    Some (take 10 (filter truthy_item (list_of_set rt (dict_get A category))))"
  using assms
  by (simp add: merge_lookup merged_items_def Let_def list_of_set_def first_seen_twice)

theorem merge_self_witness:
  "U ''parties'' \<in> set categories \<and>
   merge_entity_results insertion_runtime alice_dict alice_dict (U ''parties'') =
     Some (take 10 (filter truthy_item
       (list_of_set insertion_runtime (dict_get alice_dict (U ''parties'')))))"
  using merge_self [OF parties_category, of insertion_runtime alice_dict] parties_category
  by simp

text \<open>
  C9 as stated fails: a whitespace-only item is in the deduplicated list of the category
  and not in the merged one.
\<close>

theorem merge_self_drops_blank:
  "merge_entity_results insertion_runtime blank_dict blank_dict (U ''parties'') = Some [] \<and>
   take 10 (list_of_set insertion_runtime (dict_get blank_dict (U ''parties''))) = [U '' '']"
  by (simp add: merge_lookup categories_def merged_items_def list_of_set_def
      insertion_runtime_def first_seen_def blank_dict_def dict_get_def truthy_item_def
      py_strip_def py_lstrip_def py_isspace_def U_def)

section \<open>The model service: properties of \<open>generate_response\<close>\<close>

lemma split_from_nonempty: "split_from sep s \<noteq> []"
  by (induction sep s rule: split_from.induct) (auto split: list.splits)

lemma ensure_issued [simp]: "issued (ensure_model_loaded env s) = issued s"
  by (simp add: ensure_model_loaded_def initialize_model_def Let_def split: acquisition.splits)

lemma ensure_attempts:
  "load_attempts (ensure_model_loaded env s) =
     (if model_loaded s then load_attempts s else load_attempts s + 1)"
  by (simp add: ensure_model_loaded_def initialize_model_def Let_def split: acquisition.splits)

lemma ensure_again:
  "model_loaded s \<Longrightarrow> ensure_model_loaded env s = s"
  by (simp add: ensure_model_loaded_def)

text \<open>\<open>generate_response\<close>, with its two handlers resolved.\<close>

lemma generate_response_cases:
  "generate_response env s prompt max_length t =
    (let s1 = ensure_model_loaded env s in
     if \<not> model_loaded s1 \<or> pipeline s1 = None then (Inr msg_not_available, s1)
     else case tokenizer s1 of None \<Rightarrow> (Inr msg_generation_error, s1)
     | Some tok \<Rightarrow>
       (let req = generation_request tok (format_prompt prompt) max_length;
            s2 = s1\<lparr>issued := issued s @ [req]\<rparr> in
        case run_pipeline env (length (issued s)) req of
          Inl e \<Rightarrow> (Inr msg_generation_error, s2)
        | Inr [] \<Rightarrow> (Inr msg_generation_error, s2)
        | Inr (full # _) \<Rightarrow>
           (let response = py_strip (last (py_split full assistant_marker)) in
            (Inr (if response = [] \<or> length response < 10 then msg_too_short else response),
             s2))))"
  by (simp add: generate_response_def generate_body_def generation_attempt_def Let_def
      split: option.splits sum.splits list.splits)

lemma generate_response_returns: "\<exists>r. fst (generate_response env s prompt max_length t) = Inr r"
  by (auto simp add: generate_response_cases Let_def split: option.splits sum.splits list.splits)

lemma generate_response_state:
  "model_loaded (snd (generate_response env s prompt max_length t)) =
     model_loaded (ensure_model_loaded env s) \<and>
   load_attempts (snd (generate_response env s prompt max_length t)) =
     load_attempts (ensure_model_loaded env s)"
  by (auto simp add: generate_response_cases Let_def split: option.splits sum.splits list.splits)

lemma generate_response_issued:
  "issued (snd (generate_response env s prompt max_length t)) = issued s \<or>
   (\<exists>tok. issued (snd (generate_response env s prompt max_length t)) =
      issued s @ [generation_request tok (format_prompt prompt) max_length])"
  by (auto simp add: generate_response_cases Let_def split: option.splits sum.splits list.splits)



lemma new_service_terse:
  "model_loaded (ensure_model_loaded terse_env new_service) \<and>
   pipeline (ensure_model_loaded terse_env new_service) \<noteq> None \<and>
   tokenizer (ensure_model_loaded terse_env new_service) = Some (Tokenizer (Some 0))"
  by (simp add: ensure_model_loaded_def initialize_model_def new_service_def terse_env_def)




lemma generation_request_capped:
  "100 \<le> max_length \<Longrightarrow>
     max_new_tokens (generation_request tok p max_length) = 100 \<and>
     temperature (generation_request tok p max_length) = 3 / 10 \<and>
     top_p (generation_request tok p max_length) = 8 / 10 \<and>
     repetition_penalty (generation_request tok p max_length) = 105 / 100"
  by (simp add: generation_request_def)

lemma generate_response_issued_capped:
  assumes "100 \<le> max_length"
  shows "issued (snd (generate_response env s prompt max_length t)) = issued s \<or>
    (\<exists>r. issued (snd (generate_response env s prompt max_length t)) = issued s @ [r] \<and>
       max_new_tokens r = 100 \<and> temperature r = 3 / 10 \<and> top_p r = 8 / 10 \<and>
       repetition_penalty r = 105 / 100)"
  using generate_response_issued [of env s prompt max_length t]
        generation_request_capped [OF assms]
  by blast

lemma simplify_clause_issued:
  "issued (snd (simplify_clause env s clause_text)) = issued s \<or>
   (\<exists>r. issued (snd (simplify_clause env s clause_text)) = issued s @ [r] \<and>
      max_new_tokens r = 100 \<and> temperature r = 3 / 10 \<and> top_p r = 8 / 10 \<and>
      repetition_penalty r = 105 / 100)"
proof (cases "model_loaded (ensure_model_loaded env s)")
  case False
  then show ?thesis by (simp add: simplify_clause_def Let_def)
next
  case True
  have "snd (simplify_clause env s clause_text) =
      snd (generate_response env (ensure_model_loaded env s) (simplify_prompt clause_text) 300
             (7 / 10))"
    using True by (simp add: simplify_clause_def Let_def split: prod.splits sum.splits)
  then show ?thesis
    using generate_response_issued_capped
            [of 300 env "ensure_model_loaded env s" "simplify_prompt clause_text" "7 / 10"]
    by simp
qed

lemma extract_entities_with_ai_issued:
  "issued (snd (extract_entities_with_ai env s text)) = issued s \<or>
   (\<exists>r. issued (snd (extract_entities_with_ai env s text)) = issued s @ [r] \<and>
      max_new_tokens r = 100 \<and> temperature r = 3 / 10 \<and> top_p r = 8 / 10 \<and>
      repetition_penalty r = 105 / 100)"
proof (cases "model_loaded (ensure_model_loaded env s)")
  case False
  then show ?thesis by (simp add: extract_entities_with_ai_def Let_def)
next
  case True
  have "snd (extract_entities_with_ai env s text) =
      snd (generate_response env (ensure_model_loaded env s) (entity_prompt text) 400 (7 / 10))"
    using True by (simp add: extract_entities_with_ai_def Let_def split: prod.splits sum.splits)
  then show ?thesis
    using generate_response_issued_capped
            [of 400 env "ensure_model_loaded env s" "entity_prompt text" "7 / 10"]
    by simp
qed

lemma classify_document_with_ai_issued:
  "issued (snd (classify_document_with_ai rt env s text)) = issued s \<or>
   (\<exists>r. issued (snd (classify_document_with_ai rt env s text)) = issued s @ [r] \<and>
      max_new_tokens r = 100 \<and> temperature r = 3 / 10 \<and> top_p r = 8 / 10 \<and>
      repetition_penalty r = 105 / 100)"
proof (cases "model_loaded (ensure_model_loaded env s)")
  case False
  then show ?thesis by (simp add: classify_document_with_ai_def Let_def)
next
  case True
  have "snd (classify_document_with_ai rt env s text) =
      snd (generate_response env (ensure_model_loaded env s) (classify_prompt text) 300
             (7 / 10))"
    using True
    by (simp add: classify_document_with_ai_def Let_def split: prod.splits sum.splits)
  then show ?thesis
    using generate_response_issued_capped
            [of 300 env "ensure_model_loaded env s" "classify_prompt text" "7 / 10"]
    by simp
qed

lemma answer_question_issued:
  "issued (snd (answer_question rt env s question context)) = issued s \<or>
   (\<exists>r. issued (snd (answer_question rt env s question context)) = issued s @ [r] \<and>
      max_new_tokens r = 100 \<and> temperature r = 3 / 10 \<and> top_p r = 8 / 10 \<and>
      repetition_penalty r = 105 / 100)"
proof (cases "try_simple_answer rt question context \<noteq> [] \<or>
              \<not> model_loaded (ensure_model_loaded env s)")
  case True
  then show ?thesis by (auto simp add: answer_question_def Let_def)
next
  case False
  then have "snd (answer_question rt env s question context) =
      snd (generate_response env (ensure_model_loaded env s) (answer_prompt question context)
             200 (7 / 10))"
    by (simp add: answer_question_def Let_def split: prod.splits sum.splits)
  then show ?thesis
    using generate_response_issued_capped
            [of 200 env "ensure_model_loaded env s" "answer_prompt question context" "7 / 10"]
    by simp
qed

text \<open>
  C10. When \<open>generate_response\<close> reaches the pipeline (the model is loaded after the
  attempt to load it), it issues one request: \<open>max_new_tokens\<close> is the smaller of
  \<open>max_length\<close> and 100, the temperature is 0.3, \<open>top_p\<close> is 0.8 and the repetition
  penalty is 1.05. The temperature argument changes nothing of what \<open>generate_response\<close>
  does. Each derived operation issues no request or one request, and that request has
  \<open>max_new_tokens = 100\<close>.
\<close>

theorem generate_response_request:
  "(model_loaded (ensure_model_loaded env s) \<and> pipeline (ensure_model_loaded env s) \<noteq> None \<and>
    tokenizer (ensure_model_loaded env s) = Some tok \<longrightarrow>
      issued (snd (generate_response env s prompt max_length t)) =
        issued s @ [\<lparr>prompt_text = format_prompt prompt,
                      max_new_tokens = min max_length 100,
                      temperature = 3 / 10, do_sample = True, top_p = 8 / 10,
                      repetition_penalty = 105 / 100, pad_token_id = eos_token_id tok,
                      num_return_sequences = 1\<rparr>]) \<and>
   generate_response env s prompt max_length t = generate_response env s prompt max_length t' \<and>
   (issued (snd (simplify_clause env s text)) = issued s \<or>
    (\<exists>r. issued (snd (simplify_clause env s text)) = issued s @ [r] \<and>
       max_new_tokens r = 100 \<and> temperature r = 3 / 10 \<and> top_p r = 8 / 10 \<and>
       repetition_penalty r = 105 / 100)) \<and>
   (issued (snd (extract_entities_with_ai env s text)) = issued s \<or>
    (\<exists>r. issued (snd (extract_entities_with_ai env s text)) = issued s @ [r] \<and>
       max_new_tokens r = 100 \<and> temperature r = 3 / 10 \<and> top_p r = 8 / 10 \<and>
       repetition_penalty r = 105 / 100)) \<and>
   (issued (snd (classify_document_with_ai rt env s text)) = issued s \<or>
    (\<exists>r. issued (snd (classify_document_with_ai rt env s text)) = issued s @ [r] \<and>
       max_new_tokens r = 100 \<and> temperature r = 3 / 10 \<and> top_p r = 8 / 10 \<and>
       repetition_penalty r = 105 / 100)) \<and>
   (issued (snd (answer_question rt env s question context)) = issued s \<or>
    (\<exists>r. issued (snd (answer_question rt env s question context)) = issued s @ [r] \<and>
       max_new_tokens r = 100 \<and> temperature r = 3 / 10 \<and> top_p r = 8 / 10 \<and>
       repetition_penalty r = 105 / 100))"
proof (intro conjI)
  show "model_loaded (ensure_model_loaded env s) \<and> pipeline (ensure_model_loaded env s) \<noteq> None \<and>
    tokenizer (ensure_model_loaded env s) = Some tok \<longrightarrow>
      issued (snd (generate_response env s prompt max_length t)) =
        issued s @ [\<lparr>prompt_text = format_prompt prompt,
                      max_new_tokens = min max_length 100,
                      temperature = 3 / 10, do_sample = True, top_p = 8 / 10,
                      repetition_penalty = 105 / 100, pad_token_id = eos_token_id tok,
                      num_return_sequences = 1\<rparr>]"
    by (auto simp add: generate_response_cases generation_request_def Let_def
        split: option.splits sum.splits list.splits)
  show "generate_response env s prompt max_length t = generate_response env s prompt max_length t'"
    by (simp add: generate_response_def generate_body_def)
qed (rule simplify_clause_issued extract_entities_with_ai_issued
       classify_document_with_ai_issued answer_question_issued)+

theorem generate_response_request_witness:
  "model_loaded (ensure_model_loaded terse_env new_service) \<and>
   pipeline (ensure_model_loaded terse_env new_service) \<noteq> None \<and>
   tokenizer (ensure_model_loaded terse_env new_service) = Some (Tokenizer (Some 0)) \<and>
   issued (snd (generate_response terse_env new_service sample_question 512 (7 / 10))) =
     [\<lparr>prompt_text = format_prompt sample_question, max_new_tokens = 100,
       temperature = 3 / 10, do_sample = True, top_p = 8 / 10,
       repetition_penalty = 105 / 100, pad_token_id = Some 0, num_return_sequences = 1\<rparr>]"
  using generate_response_request
          [of terse_env new_service "Tokenizer (Some 0)" sample_question 512 "7 / 10"]
        new_service_terse
  by (simp add: new_service_def)

section \<open>The life cycle of the model\<close>

lemma ensure_not_loaded:
  "\<not> model_loaded s \<Longrightarrow> ensure_model_loaded env s = initialize_model env s"
  by (simp add: ensure_model_loaded_def)

lemma initialize_attempts [simp]:
  "load_attempts (initialize_model env s) = load_attempts s + 1"
  by (simp add: initialize_model_def Let_def split: acquisition.splits)

lemma generate_response_unloaded:
  "\<not> model_loaded (ensure_model_loaded env s) \<Longrightarrow>
     generate_response env s prompt max_length t =
       (Inr msg_not_available, ensure_model_loaded env s)"
  by (simp add: generate_response_cases Let_def)

lemma generate_response_attempts:
  "load_attempts (snd (generate_response env s prompt max_length t)) =
     load_attempts (ensure_model_loaded env s)"
  by (simp add: generate_response_state)

lemma simplify_clause_attempts:
  "load_attempts (snd (simplify_clause env s clause_text)) =
     load_attempts (ensure_model_loaded env s)"
proof (cases "model_loaded (ensure_model_loaded env s)")
  case False
  then show ?thesis by (simp add: simplify_clause_def Let_def)
next
  case True
  have "snd (simplify_clause env s clause_text) =
      snd (generate_response env (ensure_model_loaded env s) (simplify_prompt clause_text) 300
             (7 / 10))"
    using True by (simp add: simplify_clause_def Let_def split: prod.splits sum.splits)
  then show ?thesis
    using True by (simp add: generate_response_attempts ensure_again)
qed

lemma extract_entities_with_ai_attempts:
  "load_attempts (snd (extract_entities_with_ai env s text)) =
     load_attempts (ensure_model_loaded env s)"
proof (cases "model_loaded (ensure_model_loaded env s)")
  case False
  then show ?thesis by (simp add: extract_entities_with_ai_def Let_def)
next
  case True
  have "snd (extract_entities_with_ai env s text) =
      snd (generate_response env (ensure_model_loaded env s) (entity_prompt text) 400 (7 / 10))"
    using True by (simp add: extract_entities_with_ai_def Let_def split: prod.splits sum.splits)
  then show ?thesis
    using True by (simp add: generate_response_attempts ensure_again)
qed

lemma classify_document_with_ai_attempts:
  "load_attempts (snd (classify_document_with_ai rt env s text)) =
     load_attempts (ensure_model_loaded env s)"
proof (cases "model_loaded (ensure_model_loaded env s)")
  case False
  then show ?thesis by (simp add: classify_document_with_ai_def Let_def)
next
  case True
  have "snd (classify_document_with_ai rt env s text) =
      snd (generate_response env (ensure_model_loaded env s) (classify_prompt text) 300
             (7 / 10))"
    using True
    by (simp add: classify_document_with_ai_def Let_def split: prod.splits sum.splits)
  then show ?thesis
    using True by (simp add: generate_response_attempts ensure_again)
qed

lemma answer_question_attempts:
  assumes "try_simple_answer rt question context = []"
  shows "load_attempts (snd (answer_question rt env s question context)) =
     load_attempts (ensure_model_loaded env s)"
proof (cases "model_loaded (ensure_model_loaded env s)")
  case False
  then show ?thesis using assms by (simp add: answer_question_def Let_def)
next
  case True
  have "snd (answer_question rt env s question context) =
      snd (generate_response env (ensure_model_loaded env s) (answer_prompt question context)
             200 (7 / 10))"
    using True assms by (simp add: answer_question_def Let_def split: prod.splits sum.splits)
  then show ?thesis
    using True by (simp add: generate_response_attempts ensure_again)
qed

text \<open>
  C5, as the code has it. A failed attempt to load the model leaves \<open>model_loaded\<close> false,
  which is the state before any attempt, so nothing marks the failure as final: every
  operation that needs the model and finds it not loaded runs \<open>_initialize_model\<close> once
  more. When that run fails as well, the caller gets the fallback value of the operation.
\<close>

theorem unloaded_model_is_reloaded:
  assumes "\<not> model_loaded s"
  shows "load_attempts (snd (generate_response env s prompt max_length t)) = load_attempts s + 1 \<and>
    load_attempts (snd (simplify_clause env s text)) = load_attempts s + 1 \<and>
    load_attempts (snd (extract_entities_with_ai env s text)) = load_attempts s + 1 \<and>
    load_attempts (snd (classify_document_with_ai rt env s text)) = load_attempts s + 1 \<and>
    (try_simple_answer rt question context = [] \<longrightarrow>
       load_attempts (snd (answer_question rt env s question context)) = load_attempts s + 1) \<and>
    (\<not> model_loaded (initialize_model env s) \<longrightarrow>
       generate_response env s prompt max_length t =
         (Inr msg_not_available, initialize_model env s) \<and>
       simplify_clause env s text =
         (U ''Simplified: '' @ take 200 text @ U ''... (AI model not available)'',
          initialize_model env s) \<and>
       extract_entities_with_ai env s text = (empty_entities, initialize_model env s) \<and>
       classify_document_with_ai rt env s text =
         (unavailable_classification, initialize_model env s) \<and>
       (try_simple_answer rt question context = [] \<longrightarrow>
          answer_question rt env s question context =
            (fallback_answer rt question context, initialize_model env s)))"
proof -
  have e: "ensure_model_loaded env s = initialize_model env s"
    using assms by (rule ensure_not_loaded)
  have n: "load_attempts (ensure_model_loaded env s) = load_attempts s + 1"
    by (simp add: e)
  have counts:
    "load_attempts (snd (generate_response env s prompt max_length t)) = load_attempts s + 1"
    "load_attempts (snd (simplify_clause env s text)) = load_attempts s + 1"
    "load_attempts (snd (extract_entities_with_ai env s text)) = load_attempts s + 1"
    "load_attempts (snd (classify_document_with_ai rt env s text)) = load_attempts s + 1"
    "try_simple_answer rt question context = [] \<longrightarrow>
       load_attempts (snd (answer_question rt env s question context)) = load_attempts s + 1"
    using n answer_question_attempts [of rt question "context" env s]
    by (simp_all add: generate_response_attempts simplify_clause_attempts
        extract_entities_with_ai_attempts classify_document_with_ai_attempts)
  have fallbacks: "\<not> model_loaded (initialize_model env s) \<longrightarrow>
       generate_response env s prompt max_length t =
         (Inr msg_not_available, initialize_model env s) \<and>
       simplify_clause env s text =
         (U ''Simplified: '' @ take 200 text @ U ''... (AI model not available)'',
          initialize_model env s) \<and>
       extract_entities_with_ai env s text = (empty_entities, initialize_model env s) \<and>
       classify_document_with_ai rt env s text =
         (unavailable_classification, initialize_model env s) \<and>
       (try_simple_answer rt question context = [] \<longrightarrow>
          answer_question rt env s question context =
            (fallback_answer rt question context, initialize_model env s))"
    by (simp add: e generate_response_unloaded simplify_clause_def extract_entities_with_ai_def
        classify_document_with_ai_def answer_question_def Let_def)
  from counts fallbacks show ?thesis by blast
qed

lemma after_failed_load_eq:
  "after_failed_load = new_service\<lparr>load_attempts := 1\<rparr>"
  by (simp add: after_failed_load_def generate_response_cases ensure_model_loaded_def
      initialize_model_def new_service_def flaky_env_def Let_def)

theorem unloaded_model_is_reloaded_witness:
  "\<not> model_loaded after_failed_load \<and>
   \<not> model_loaded (initialize_model failing_env after_failed_load) \<and>
   try_simple_answer insertion_runtime sample_question [] = [] \<and>
   load_attempts (snd (generate_response failing_env after_failed_load sample_question 512
     (7 / 10))) = 2 \<and>
   fst (generate_response failing_env after_failed_load sample_question 512 (7 / 10))
     = Inr msg_not_available \<and>
   fst (extract_entities_with_ai failing_env after_failed_load sample_question)
     = empty_entities \<and>
   fst (answer_question insertion_runtime failing_env after_failed_load sample_question [])
     = fallback_answer insertion_runtime sample_question []"
proof -
  have a: "\<not> model_loaded after_failed_load"
    by (simp add: after_failed_load_eq new_service_def)
  have b: "\<not> model_loaded (initialize_model failing_env after_failed_load)"
    by (simp add: initialize_model_def failing_env_def Let_def)
  have c: "try_simple_answer insertion_runtime sample_question [] = []"
    by (simp add: try_simple_answer_def sample_question_def py_lower_def U_def Let_def)
  have d: "load_attempts after_failed_load = 1"
    by (simp add: after_failed_load_eq)
  show ?thesis
    using unloaded_model_is_reloaded
            [OF a, of failing_env sample_question 512 "7 / 10" sample_question
               insertion_runtime sample_question "[]"]
          a b c d
    by simp
qed

text \<open>
  C5 as stated fails. The first attempt to load the model fails; the next call of
  \<open>generate_response\<close> runs \<open>_initialize_model\<close> again, this time with success, and
  returns what the model generated.
\<close>

theorem failed_load_is_retried:
  "\<not> model_loaded after_failed_load \<and> load_attempts after_failed_load = 1 \<and>
   load_attempts (snd (generate_response flaky_env after_failed_load sample_question 512
     (7 / 10))) = 2 \<and>
   model_loaded (snd (generate_response flaky_env after_failed_load sample_question 512
     (7 / 10))) \<and>
   fst (generate_response flaky_env after_failed_load sample_question 512 (7 / 10))
     = Inr (U ''A lease binds both sides.'')"
  by (simp add: after_failed_load_eq generate_response_cases ensure_model_loaded_def
      initialize_model_def new_service_def flaky_env_def generation_request_def Let_def
      format_prompt_def sample_question_def assistant_marker_def newline_def U_def
      py_split_def py_strip_def py_lstrip_def py_isspace_def)

section \<open>The parsers of the model's replies\<close>

lemmas str_defs = U_def py_split_def py_strip_def py_lstrip_def py_isspace_def
  py_lstrip_chars_def newline_def bullet_def

lemma bullet_reply_after_marker:
  "py_strip (last (py_split (assistant_marker @ bullet_first_reply) assistant_marker))
     = bullet_first_reply"
  by (simp add: assistant_marker_def bullet_first_reply_def str_defs)

text \<open>
  C6 at the failing input. The reply starts with a line whose bullet is U+2022, before any
  section header: looking up the category \<open>None\<close> raises, the handler ends the loop and
  the \<open>PARTIES:\<close> line that follows is never read. The same reply with a dash for the
  bullet is parsed as the claim says.
\<close>

theorem bullet_before_header_aborts_parse:
  "parse_entity_line (empty_entities, None) ([bullet] @ U '' Acme Corp'')
     = Inl (key_error (U ''None'')) \<and>
   parse_entities bullet_first_reply = empty_entities \<and>
   fst (extract_entities_with_ai bullet_env new_service sample_document) = empty_entities \<and>
   parse_entities dash_first_reply (U ''parties'') = Some [U ''Alice'', U ''Bob'']"
proof (intro conjI)
  show "parse_entity_line (empty_entities, None) ([bullet] @ U '' Acme Corp'')
     = Inl (key_error (U ''None''))"
    by (simp add: parse_entity_line_def dict_extend_def str_defs Let_def)
  show "parse_entities bullet_first_reply = empty_entities"
    by (simp add: bullet_first_reply_def parse_entities_def parse_entity_line_def
        header_line_def dict_extend_def inline_items_def str_defs Let_def)
  then show "fst (extract_entities_with_ai bullet_env new_service sample_document)
      = empty_entities"
    by (simp add: extract_entities_with_ai_def generate_response_cases ensure_model_loaded_def
        initialize_model_def new_service_def bullet_env_def generation_request_def Let_def
        bullet_reply_after_marker)
      (simp add: bullet_first_reply_def U_def)
  show "parse_entities dash_first_reply (U ''parties'') = Some [U ''Alice'', U ''Bob'']"
    by (simp add: dash_first_reply_def parse_entities_def parse_entity_line_def
        header_line_def dict_extend_def inline_items_def empty_entities_def str_defs Let_def)
qed

lemma startswith_head: "startswith s (a # as) \<Longrightarrow> startswith s (b # bs) \<Longrightarrow> a = b"
  by (cases s) auto

lemma header_not_bullet:
  "startswith line (U ''Type:'') \<or> startswith line (U ''Confidence:'') \<or>
   startswith line (U ''Description:'') \<or> startswith line (U ''Key Characteristics:'') \<Longrightarrow>
   \<not> startswith line (U ''-'') \<and> \<not> startswith line [bullet]"
  by (auto simp add: U_def bullet_def dest: startswith_head)

lemma classification_line_bullets:
  "key_characteristics (parse_classification_line rt result raw) =
     key_characteristics result @
     (let line = py_strip raw;
          item = py_strip (py_lstrip_chars (U ''-'' @ [bullet]) line)
      in if (startswith line (U ''-'') \<or> startswith line [bullet]) \<and> item \<noteq> []
         then [item] else [])"
  using header_not_bullet [of "py_strip raw"]
  by (auto simp add: parse_classification_line_def Let_def)

lemma classification_lines_bullets:
  "key_characteristics (foldl (parse_classification_line rt) result lines) =
     key_characteristics result @
     concat (map (\<lambda>raw.
       let line = py_strip raw;
           item = py_strip (py_lstrip_chars (U ''-'' @ [bullet]) line)
       in if (startswith line (U ''-'') \<or> startswith line [bullet]) \<and> item \<noteq> []
          then [item] else []) lines)"
proof (induction lines arbitrary: result)
  case Nil
  then show ?case by simp
next
  case (Cons raw lines)
  show ?case
    by (simp only: foldl_Cons Cons.IH classification_line_bullets list.map concat.simps
        append_assoc)
qed

text \<open>
  C7, as the code has it. The classification parser keeps no cursor: the key
  characteristics are the bulleted lines of the whole reply, in their order, each without
  its bullets and stripped (a line that is empty then is left out), whether or not a
  \<open>Key Characteristics:\<close> header stands before them.
\<close>

theorem classification_bullets_anywhere:
  "key_characteristics (parse_classification rt response) =
     concat (map (\<lambda>raw.
       let line = py_strip raw;
           item = py_strip (py_lstrip_chars (U ''-'' @ [bullet]) line)
       in if (startswith line (U ''-'') \<or> startswith line [bullet]) \<and> item \<noteq> []
          then [item] else []) (py_split response [newline]))"
  by (simp add: parse_classification_def classification_lines_bullets
      default_classification_def)

text \<open>
  C7 as stated fails: a bulleted line that stands before the \<open>Key Characteristics:\<close>
  header, and before the \<open>Type:\<close> header, is among the key characteristics.
\<close>

theorem bullet_before_key_characteristics:
  "key_characteristics (parse_classification insertion_runtime early_bullet_reply)
     = [U ''early point'']"
  by (simp add: early_bullet_reply_def parse_classification_def parse_classification_line_def
      default_classification_def parse_confidence_def str_defs Let_def)



section \<open>The rule-based extractors on the scenario text\<close>

lemmas regex_defs = findall_def search_def AZ_def az_def sp_def dg_def amount_def month_name_def
  Star_def Plus_def Opt_def is_word_def is_decimal_def py_isspace_def ascii_fold_def in_range_def
  word_boundary_def sentence_rest_def













lemma rule_based_lookup:
  "extract_entities_rule_based rt text (U ''parties'') = Some (extract_parties rt text)"
  "extract_entities_rule_based rt text (U ''dates'') = Some (extract_dates rt text)"
  "extract_entities_rule_based rt text (U ''monetary_values'') =
     Some (extract_monetary_values rt text)"
  "extract_entities_rule_based rt text (U ''obligations'') = Some (extract_obligations rt text)"
  "extract_entities_rule_based rt text (U ''legal_terms'') = Some (extract_legal_terms rt text)"
  by (simp_all add: extract_entities_rule_based_def U_def)




section \<open>The shape of the entity sets\<close>

lemma rule_based_dom: "dom (extract_entities_rule_based rt text) = set categories"
  by (auto simp add: extract_entities_rule_based_def categories_def)

lemma extract_parties_shape:
  "iteration_order rt \<Longrightarrow>
     distinct (extract_parties rt text) \<and> length (extract_parties rt text) \<le> 5"
  by (simp add: extract_parties_def Let_def list_of_set_distinct)

lemma extract_dates_shape:
  "iteration_order rt \<Longrightarrow>
     distinct (extract_dates rt text) \<and> length (extract_dates rt text) \<le> 5"
  by (simp add: extract_dates_def Let_def list_of_set_distinct)

lemma extract_monetary_values_shape:
  "iteration_order rt \<Longrightarrow>
     distinct (extract_monetary_values rt text) \<and>
     length (extract_monetary_values rt text) \<le> 5"
  by (simp add: extract_monetary_values_def Let_def list_of_set_distinct)

lemma extract_obligations_length: "length (extract_obligations rt text) \<le> 5"
  by (simp add: extract_obligations_def Let_def)

lemma titles_distinct: "distinct (map (\<lambda>term. py_title (U term)) legal_terms)"
  by (simp add: legal_terms_def py_title_def U_def)

lemma extract_legal_terms_shape:
  "distinct (extract_legal_terms rt text) \<and> length (extract_legal_terms rt text) \<le> 8"
  by (simp add: extract_legal_terms_def Let_def distinct_map_filter titles_distinct)

lemma dict_extend_dom:
  assumes "dict_extend d k xs = Inr d'"
  shows "dom d' = dom d"
proof -
  from assms obtain key v where "d key = Some v" and "d' = d(key \<mapsto> v @ xs)"
    by (auto simp add: dict_extend_def split: option.splits)
  then show ?thesis
    by (simp add: insert_absorb domI)
qed

lemma header_line_steps:
  "header_line d line header category placeholder = Inr (d', c) \<Longrightarrow>
     d' = d \<or> (\<exists>k xs. dict_extend d k xs = Inr d')"
  by (auto simp add: header_line_def Let_def split: if_splits sum.splits)

lemma parse_entity_line_steps:
  "parse_entity_line st raw = Inr (d', c) \<Longrightarrow>
     d' = fst st \<or> (\<exists>k xs. dict_extend (fst st) k xs = Inr d')"
  unfolding parse_entity_line_def Let_def
  by (auto dest: header_line_steps split: if_splits sum.splits)

lemma parse_entity_line_dom:
  assumes "parse_entity_line st raw = Inr st'"
  shows "dom (fst st') = dom (fst st)"
proof -
  obtain d' c where st': "st' = (d', c)"
    by (cases st')
  from parse_entity_line_steps [of st raw d' c] assms st'
  have "d' = fst st \<or> (\<exists>k xs. dict_extend (fst st) k xs = Inr d')"
    by simp
  then show ?thesis
    unfolding st' by (metis dict_extend_dom fst_conv)
qed

lemma parse_entity_lines_dom: "dom (parse_entity_lines lines st) = dom (fst st)"
proof (induction lines arbitrary: st)
  case Nil
  show ?case by simp
next
  case (Cons raw lines)
  show ?case
  proof (cases "parse_entity_line st raw")
    case (Inl e)
    then show ?thesis by simp
  next
    case (Inr st')
    then show ?thesis
      using Cons.IH [of st'] parse_entity_line_dom [OF Inr] by simp
  qed
qed

lemma empty_entities_dom: "dom empty_entities = set categories"
  by (auto simp add: empty_entities_def categories_def)

lemma parse_entities_dom: "dom (parse_entities response) = set categories"
  by (simp add: parse_entities_def parse_entity_lines_dom empty_entities_dom)

lemma extract_entities_with_ai_dom:
  "dom (fst (extract_entities_with_ai env s text)) = set categories"
  by (simp add: extract_entities_with_ai_def Let_def empty_entities_dom parse_entities_dom
      split: prod.splits sum.splits)

text \<open>
  C4, as the code has it. The entity set of the rule-based extraction, the merged one and
  the one parsed from the model's reply each have exactly the five categories. In the
  rule-based set, parties, dates and monetary values hold no item twice and at most 5
  items, obligations at most 5 items, and legal terms no item twice and at most 8 items.
  Each merged category holds no item twice and at most 10 items.
\<close>

theorem entity_sets_shape:
  assumes "iteration_order rt"
  shows "dom (extract_entities_rule_based rt text) = set categories \<and>
    (\<forall>category \<in> {U ''parties'', U ''dates'', U ''monetary_values''}.
       distinct (dict_get (extract_entities_rule_based rt text) category) \<and>
       length (dict_get (extract_entities_rule_based rt text) category) \<le> 5) \<and>
    length (dict_get (extract_entities_rule_based rt text) (U ''obligations'')) \<le> 5 \<and>
    distinct (dict_get (extract_entities_rule_based rt text) (U ''legal_terms'')) \<and>
    length (dict_get (extract_entities_rule_based rt text) (U ''legal_terms'')) \<le> 8 \<and>
    dom (merge_entity_results rt A B) = set categories \<and>
    (\<forall>category \<in> set categories.
       distinct (dict_get (merge_entity_results rt A B) category) \<and>
       length (dict_get (merge_entity_results rt A B) category) \<le> 10) \<and>
    dom (fst (extract_entities_with_ai env s text)) = set categories"
proof (intro conjI ballI)
  show "dom (merge_entity_results rt A B) = set categories"
    by (auto simp: merge_lookup dom_def)
next
  fix category assume "category \<in> set categories"
  then have "dict_get (merge_entity_results rt A B) category = merged_items rt A B category"
    by (simp add: dict_get_def merge_lookup)
  then show "distinct (dict_get (merge_entity_results rt A B) category)"
    and "length (dict_get (merge_entity_results rt A B) category) \<le> 10"
    using merged_items_distinct [OF assms, of A B category]
          merged_items_length [of rt A B category]
    by simp_all
next
  fix category assume "category \<in> {U ''parties'', U ''dates'', U ''monetary_values''}"
  then show "distinct (dict_get (extract_entities_rule_based rt text) category)"
    and "length (dict_get (extract_entities_rule_based rt text) category) \<le> 5"
    using extract_parties_shape [OF assms, of "text"] extract_dates_shape [OF assms, of "text"]
          extract_monetary_values_shape [OF assms, of "text"]
    by (auto simp add: dict_get_def rule_based_lookup)
qed (simp_all add: rule_based_dom extract_entities_with_ai_dom dict_get_def rule_based_lookup
       extract_obligations_length extract_legal_terms_shape)

theorem entity_sets_shape_witness:
  "iteration_order insertion_runtime \<and>
   U ''parties'' \<in> {U ''parties'', U ''dates'', U ''monetary_values''} \<and>
   distinct (dict_get (extract_entities_rule_based insertion_runtime repeated_text)
     (U ''parties'')) \<and>
   length (dict_get (extract_entities_rule_based insertion_runtime repeated_text)
     (U ''parties'')) \<le> 5 \<and>
   U ''parties'' \<in> set categories \<and>
   distinct (dict_get (merge_entity_results insertion_runtime alice_dict blank_dict)
     (U ''parties'')) \<and>
   length (dict_get (merge_entity_results insertion_runtime alice_dict blank_dict)
     (U ''parties'')) \<le> 10"
  using entity_sets_shape [OF insertion_runtime_order, of repeated_text alice_dict blank_dict]
        insertion_runtime_order parties_category
  by simp

lemma repeated_obligation_matches:
  "concat (map (\<lambda>pattern. map py_strip (findall rt True pattern repeated_text))
     obligation_patterns) =
     [U ''shall pay the rent on time.'', U ''shall pay the rent on time.'']"
  by (simp add: repeated_text_def U_def obligation_patterns_def regex_defs py_strip_def
      py_lstrip_def)

text \<open>
  C4 as stated fails. A text that states an obligation twice has it twice among its
  obligations; and the entity set parsed from a reply of the model is neither
  deduplicated nor capped.
\<close>

theorem obligations_keep_duplicates:
  "extract_entities_rule_based insertion_runtime repeated_text (U ''obligations'') =
     Some [U ''shall pay the rent on time.'', U ''shall pay the rent on time.''] \<and>
   parse_entities crowded_reply (U ''parties'') =
     Some [U ''Ann'', U ''Ann'', U ''Bob'', U ''Cy'', U ''Di'', U ''Ed'', U ''Flo'']"
proof (intro conjI)
  show "extract_entities_rule_based insertion_runtime repeated_text (U ''obligations'') =
     Some [U ''shall pay the rent on time.'', U ''shall pay the rent on time.'']"
    by (simp add: rule_based_lookup extract_obligations_def repeated_obligation_matches Let_def)
       (simp add: U_def)
  show "parse_entities crowded_reply (U ''parties'') =
     Some [U ''Ann'', U ''Ann'', U ''Bob'', U ''Cy'', U ''Di'', U ''Ed'', U ''Flo'']"
    by (simp add: crowded_reply_def parse_entities_def parse_entity_line_def
        header_line_def dict_extend_def inline_items_def empty_entities_def str_defs Let_def)
qed

end
